theory Spec2Isabelle
  imports Main "HOL-Library.Word"
begin

section \<open>The session handler of \<open>handler_holding_binddn.go\<close>\<close>

text \<open>
  The development embeds the four functions of \<open>src/handler_holding_binddn.go\<close>:
  \<open>handleConnectionAndSendBindDn\<close> (the session loop), \<open>judgeBindDnIsEmpty\<close>
  (the predicate evaluator), \<open>makeBindDnRequest\<close> and \<open>sendBindDnRequest\<close> (the bind
  forwarder). Everything the file calls but does not define (the handler chains, the
  control decoder, the response encoders, \<open>sendPacket\<close>, the configuration) is a
  parameter of the model.
\<close>

subsection \<open>Packets of package \<open>asn1-ber\<close>\<close>

type_synonym uint8 = "8 word"
type_synonym uint64 = "64 word"

text \<open>
  The field \<open>Value\<close> of a packet is a Go \<open>interface{}\<close>. The handler asserts the dynamic
  types \<open>uint64\<close> and \<open>string\<close> on it; every other dynamic type is \<open>VOther\<close>.
\<close>

datatype val = VNil | VUint64 uint64 | VString string | VBool bool | VOther

text \<open>
  \<open>ber.Packet\<close>: the struct fields in the order the handler reads them. \<open>Data\<close> is the
  content of the \<open>bytes.Buffer\<close>, so \<open>p.Data.Len()\<close> is \<open>length (Data p)\<close>.
\<close>

datatype packet =
  Packet (ClassType: uint8) (TagType: uint8) (Tag: uint8) (Value: val)
         (Data: "uint8 list") (Children: "packet list") (Description: string)

definition ClassUniversal :: uint8 where "ClassUniversal = 0"
definition ClassApplication :: uint8 where "ClassApplication = 64"
definition ClassContext :: uint8 where "ClassContext = 128"
definition ClassPrivate :: uint8 where "ClassPrivate = 192"

definition TypePrimitive :: uint8 where "TypePrimitive = 0"
definition TypeConstructed :: uint8 where "TypeConstructed = 32"

definition TagInteger :: uint8 where "TagInteger = 2"
definition TagOctetString :: uint8 where "TagOctetString = 4"
definition TagSequence :: uint8 where "TagSequence = 16"

text \<open>
  A Go map from \<open>uint8\<close> to \<open>string\<close>, read with \<open>m[k]\<close>: a key that is absent reads as
  the empty string.
\<close>

definition index_map :: "(uint8 \<times> string) list \<Rightarrow> uint8 \<Rightarrow> string" where
  "index_map m k = (case map_of m k of Some v \<Rightarrow> v | None \<Rightarrow> [])"

text \<open>
  The name tables \<open>ber.ClassMap\<close>, \<open>ber.TypeMap\<close> and \<open>ber.TagMap\<close> of the imported
  package. The spelling \<open>Primative\<close> is the package's own, and it is the one
  \<open>judgeBindDnIsEmpty\<close> compares with.
\<close>

definition ClassMap :: "(uint8 \<times> string) list" where
  "ClassMap =
    [(ClassUniversal, ''Universal''), (ClassApplication, ''Application''),
     (ClassContext, ''Context''), (ClassPrivate, ''Private'')]"

definition TypeMap :: "(uint8 \<times> string) list" where
  "TypeMap = [(TypePrimitive, ''Primative''), (TypeConstructed, ''Constructed'')]"

definition TagMap :: "(uint8 \<times> string) list" where
  "TagMap =
    [(0, ''EOC (End-of-Content)''), (1, ''Boolean''), (TagInteger, ''Integer''),
     (3, ''Bit String''), (TagOctetString, ''Octet String''), (5, ''NULL''),
     (6, ''Object Identifier''), (7, ''Object Descriptor''), (8, ''External''),
     (9, ''Real (float)''), (10, ''Enumerated''), (11, ''Embedded PDV''),
     (12, ''UTF8 String''), (13, ''Relative-OID''),
     (TagSequence, ''Sequence and Sequence of''), (17, ''Set and Set OF''),
     (18, ''Numeric String''), (19, ''Printable String''), (20, ''T61 String''),
     (21, ''Videotex String''), (22, ''IA5 String''), (23, ''UTC Time''),
     (24, ''Generalized Time''), (25, ''Graphic String''), (26, ''Visible String''),
     (27, ''General String''), (28, ''Universal String''), (29, ''Character String''),
     (30, ''BMP String'')]"

text \<open>\<open>fmt.Sprintf("0x%02X", tag)\<close> on a \<open>uint8\<close>: two upper-case hexadecimal digits.\<close>

definition hex_digit :: "nat \<Rightarrow> char" where
  "hex_digit n = ''0123456789ABCDEF'' ! (n mod 16)"

definition Sprintf_0x02X :: "uint8 \<Rightarrow> string" where
  "Sprintf_0x02X t = ''0x'' @ [hex_digit (unat t div 16), hex_digit (unat t mod 16)]"

subsection \<open>The predicate evaluator\<close>

text \<open>
  \<open>judgeBindDnIsEmpty(p, result)\<close> writes through the pointer \<open>result\<close>; the model takes
  the pointed-to boolean and returns its value after the call. The loop over the children
  is the \<open>fold\<close>.
\<close>

fun judgeBindDnIsEmpty :: "packet \<Rightarrow> bool \<Rightarrow> bool" where
  "judgeBindDnIsEmpty (Packet classType tagType ptag v pdata children descr) result =
     (let class = index_map ClassMap classType;
          tagtype = index_map TypeMap tagType;
          tag = Sprintf_0x02X ptag;
          tag = (if classType = ClassUniversal then index_map TagMap ptag else tag);
          result = (if class = ''Universal'' \<and> tagtype = ''Primative'' \<and>
                       tag = ''Octet String'' \<and> length pdata = 0
                    then True else result)
      in fold judgeBindDnIsEmpty children result)"

text \<open>All nodes of a tree, the root first (used only to state properties).\<close>

fun nodes :: "packet \<Rightarrow> packet list" where
  "nodes (Packet c t g v d cs descr) = Packet c t g v d cs descr # concat (map nodes cs)"

definition is_empty_octet_string :: "packet \<Rightarrow> bool" where
  "is_empty_octet_string p \<longleftrightarrow>
     ClassType p = ClassUniversal \<and> TagType p = TypePrimitive \<and>
     Tag p = TagOctetString \<and> length (Data p) = 0"

subsection \<open>Constants of the package that the handler uses\<close>

text \<open>
  Modelled from the spec: the operation kinds of section 4.1 step 4 and the result codes
  \<open>success\<close> and \<open>operations error\<close>. The Go constants are declared in a file of the
  package that is not part of the sources at hand; the numbers are the protocol-op and
  result-code numbers of LDAP (RFC 4511), which the package follows. The handler only
  compares them with \<open>req.Tag\<close> and with result codes.
\<close>

type_synonym LDAPResultCode = uint8

definition ApplicationBindRequest :: uint8 where "ApplicationBindRequest = 0"
definition ApplicationUnbindRequest :: uint8 where "ApplicationUnbindRequest = 2"
definition ApplicationSearchRequest :: uint8 where "ApplicationSearchRequest = 3"
definition ApplicationModifyRequest :: uint8 where "ApplicationModifyRequest = 6"
definition ApplicationModifyResponse :: uint8 where "ApplicationModifyResponse = 7"
definition ApplicationAddRequest :: uint8 where "ApplicationAddRequest = 8"
definition ApplicationAddResponse :: uint8 where "ApplicationAddResponse = 9"
definition ApplicationDelRequest :: uint8 where "ApplicationDelRequest = 10"
definition ApplicationDelResponse :: uint8 where "ApplicationDelResponse = 11"
definition ApplicationModifyDNRequest :: uint8 where "ApplicationModifyDNRequest = 12"
definition ApplicationModifyDNResponse :: uint8 where "ApplicationModifyDNResponse = 13"
definition ApplicationCompareRequest :: uint8 where "ApplicationCompareRequest = 14"
definition ApplicationCompareResponse :: uint8 where "ApplicationCompareResponse = 15"
definition ApplicationAbandonRequest :: uint8 where "ApplicationAbandonRequest = 16"
definition ApplicationExtendedRequest :: uint8 where "ApplicationExtendedRequest = 23"
definition ApplicationExtendedResponse :: uint8 where "ApplicationExtendedResponse = 24"

definition LDAPResultSuccess :: LDAPResultCode where "LDAPResultSuccess = 0"
definition LDAPResultOperationsError :: LDAPResultCode where "LDAPResultOperationsError = 1"

subsection \<open>What the handler calls: responses, events, the environment\<close>

text \<open>
  The response encoders are not interpreted: a response is the encoder's name with the
  arguments it was called with. A \<open>Control\<close> is not interpreted either: the handler only
  passes the list on to the search chain, so a control is named by the packet it was
  decoded from.
\<close>

datatype response =
    encodeLDAPResponse uint64 uint8 LDAPResultCode string
  | encodeBindResponse uint64 LDAPResultCode
  | encodeSearchDone uint64 LDAPResultCode

datatype Control = ControlOf packet

text \<open>
  What \<open>HandleSearchRequest\<close> returns: \<open>nil\<close>, an \<open>*Error\<close> with its \<open>ResultCode\<close>, or an
  error of another dynamic type (on which the assertion \<open>err.(*Error)\<close> panics).
\<close>

datatype search_error = NoError | LDAPError LDAPResultCode | OtherError

text \<open>
  A bind chain call is made for a request read from the wire or for the request built by
  \<open>makeBindDnRequest\<close>; the event records which.
\<close>

datatype origin = Wire | Synthetic

text \<open>
  The calls the handler makes on its collaborators, each with its arguments and with what
  it returned. The trace of a session is the list of these calls in the order they are made.
\<close>

datatype event =
    countBinds
  | countSearches
  | countUnbinds
  | BindChain origin packet LDAPResultCode
  | SearchChain packet "Control list" uint64 string search_error
  | ExtendedChain packet string LDAPResultCode
  | AbandonChain packet string
  | AddChain packet string LDAPResultCode
  | ModifyChain packet string LDAPResultCode
  | DeleteChain packet string LDAPResultCode
  | ModifyDNChain packet string LDAPResultCode
  | CompareChain packet string LDAPResultCode
  | Sent response bool
  | CloseCall string string
  | ConnClose

text \<open>
  The two functions of \<open>asn1-ber\<close> that produce the bytes of \<open>Data\<close> for a packet built
  in memory. The handler never reads these bytes; they are parameters.
\<close>

record codec =
  EncodeInteger :: "uint64 \<Rightarrow> uint8 list"
  Bytes :: "packet \<Rightarrow> uint8 list"

text \<open>
  The environment of one connection. Every collaborator may depend on all that has
  happened on the connection so far, so each takes the trace up to its call as its first
  argument: a handler chain that keeps state, or a transport that fails at some moment, is
  a function of that history. The chains get the request by pointer; the model takes it
  that they leave the packet as it was read, and that every call of a chain, of an
  encoder and of \<open>sendPacket\<close> returns. \<open>sendPacket\<close> returns \<open>True\<close> for a \<open>nil\<close> error.

  \<open>DecodeControl\<close> is a function of the package that is not part of the sources at
  hand. It gets a pointer to one control of the envelope, so it can rewrite that control
  in place, and it can panic (it indexes the children of the control and asserts the
  types of their values). The parameter gives the control as the call leaves it, or
  \<open>None\<close> for a panic.

  \<open>CloseFns\<close> lists the keys of the server's map of close collaborators in the order
  the \<open>range\<close> loop visits them; \<open>BindDn\<close> and \<open>BindPass\<close> are the configured service
  identity (\<open>ldaplib.BindDn\<close>, \<open>ldaplib.BindPass\<close>).
\<close>

record env =
  HandleBindRequest :: "event list \<Rightarrow> packet \<Rightarrow> LDAPResultCode"
  HandleSearchRequest ::
    "event list \<Rightarrow> packet \<Rightarrow> Control list \<Rightarrow> uint64 \<Rightarrow> string \<Rightarrow> search_error"
  HandleExtendedRequest :: "event list \<Rightarrow> packet \<Rightarrow> string \<Rightarrow> LDAPResultCode"
  HandleAddRequest :: "event list \<Rightarrow> packet \<Rightarrow> string \<Rightarrow> LDAPResultCode"
  HandleModifyRequest :: "event list \<Rightarrow> packet \<Rightarrow> string \<Rightarrow> LDAPResultCode"
  HandleDeleteRequest :: "event list \<Rightarrow> packet \<Rightarrow> string \<Rightarrow> LDAPResultCode"
  HandleModifyDNRequest :: "event list \<Rightarrow> packet \<Rightarrow> string \<Rightarrow> LDAPResultCode"
  HandleCompareRequest :: "event list \<Rightarrow> packet \<Rightarrow> string \<Rightarrow> LDAPResultCode"
  sendPacket :: "event list \<Rightarrow> response \<Rightarrow> bool"
  DecodeControl :: "packet \<Rightarrow> packet option"
  LDAPResultCodeMap :: "LDAPResultCode \<Rightarrow> string"
  CloseFns :: "string list"
  BindDn :: string
  BindPass :: string
  ber :: codec

subsection \<open>Session state and control flow\<close>

text \<open>
  The two local variables of \<open>handleConnectionAndSendBindDn\<close>, and the trace of the
  calls made so far.
\<close>

record session =
  boundDN :: string
  isSentBindDn :: bool
  trace :: "event list"

definition emit :: "event \<Rightarrow> session \<Rightarrow> session" where
  "emit e s = s\<lparr>trace := trace s @ [e]\<rparr>"

text \<open>
  How one iteration of the loop ends: it falls through to the next read, it leaves the
  loop (\<open>break\<close>, \<open>break handler\<close>), or the Go runtime panics.
\<close>

datatype flow = Continue | BreakHandler | Panic

datatype 'a outcome = Returned 'a | Panicked

text \<open>\<open>p.Children[i]\<close>: \<open>None\<close> is the index-out-of-range panic.\<close>

definition child :: "packet \<Rightarrow> nat \<Rightarrow> packet option" where
  "child p i = (if i < length (Children p) then Some (Children p ! i) else None)"

text \<open>
  The type assertions on a \<open>Value\<close>. The comma-ok form \<open>x, ok = v.(string)\<close> yields the
  zero value and \<open>false\<close> when the dynamic type is another one. For \<open>v.(uint64)\<close> the
  result is \<open>None\<close> then: in the comma-ok form \<open>ok\<close> is false, in the one-value form the
  runtime panics.
\<close>

definition assert_string :: "val \<Rightarrow> string \<times> bool" where
  "assert_string v = (case v of VString x \<Rightarrow> (x, True) | _ \<Rightarrow> ([], False))"

definition assert_uint64 :: "val \<Rightarrow> uint64 option" where
  "assert_uint64 v = (case v of VUint64 x \<Rightarrow> Some x | _ \<Rightarrow> None)"

subsection \<open>Building the synthetic bind request\<close>

text \<open>
  \<open>ber.Encode\<close> with a \<open>nil\<close> value (the only way the source calls it), \<open>ber.NewInteger\<close>,
  \<open>ber.NewString\<close> and \<open>AppendChild\<close>, as far as the fields of the packet go.
\<close>

definition Encode :: "uint8 \<Rightarrow> uint8 \<Rightarrow> uint8 \<Rightarrow> string \<Rightarrow> packet" where
  "Encode classType tagType ptag descr = Packet classType tagType ptag VNil [] [] descr"

definition NewInteger :: "codec \<Rightarrow> uint8 \<Rightarrow> uint8 \<Rightarrow> uint8 \<Rightarrow> uint64 \<Rightarrow> string \<Rightarrow> packet" where
  "NewInteger cd classType tagType ptag v descr =
     Packet classType tagType ptag (VUint64 v) (EncodeInteger cd v) [] descr"

definition NewString :: "uint8 \<Rightarrow> uint8 \<Rightarrow> uint8 \<Rightarrow> string \<Rightarrow> string \<Rightarrow> packet" where
  "NewString classType tagType ptag v descr =
     Packet classType tagType ptag (VString v) (map of_char v) [] descr"

definition AppendChild :: "codec \<Rightarrow> packet \<Rightarrow> packet \<Rightarrow> packet" where
  "AppendChild cd p c =
     Packet (ClassType p) (TagType p) (Tag p) (Value p) (Data p @ Bytes cd c)
            (Children p @ [c]) (Description p)"

definition makeBindDnRequest :: "codec \<Rightarrow> string \<Rightarrow> string \<Rightarrow> packet" where
  "makeBindDnRequest cd username password =
     (let messageID = 0;
          packet = Encode ClassUniversal TypeConstructed TagSequence ''LDAP Request'';
          packet = AppendChild cd packet
                     (NewInteger cd ClassUniversal TypePrimitive TagInteger messageID ''MessageID'');
          bindRequest = Encode ClassApplication TypeConstructed ApplicationBindRequest ''Bind Request'';
          bindRequest = AppendChild cd bindRequest
                     (NewInteger cd ClassUniversal TypePrimitive TagInteger 3 ''Version'');
          bindRequest = AppendChild cd bindRequest
                     (NewString ClassUniversal TypePrimitive TagOctetString username ''User Name'');
          bindRequest = AppendChild cd bindRequest
                     (NewString ClassContext TypePrimitive 0 password ''Password'');
          packet = AppendChild cd packet bindRequest
      in packet)"

subsection \<open>The bind forwarder\<close>

text \<open>
  \<open>sendBindDnRequest(conn, &boundDN)\<close>. The comma-ok assertion
  \<open>*boundDN, result = x.(string)\<close> stores the empty string when it fails; the
  one-value assertion \<open>x.(uint64)\<close> panics when it fails.
\<close>

definition sendBindDnRequest :: "env \<Rightarrow> session \<Rightarrow> bool outcome \<times> session" where
  "sendBindDnRequest e s =
     (let result = False;
          bindDnPacket = makeBindDnRequest (ber e) (BindDn e) (BindPass e)
      in (case child bindDnPacket 1 of
            None \<Rightarrow> (Panicked, s)
          | Some bindDnReq \<Rightarrow>
              (let s = emit countBinds s;
                   ldapResultCode = HandleBindRequest e (trace s) bindDnReq;
                   s = emit (BindChain Synthetic bindDnReq ldapResultCode) s
               in (case (if ldapResultCode = LDAPResultSuccess
                         then (case child bindDnReq 1 of
                                 None \<Rightarrow> None
                               | Some dn \<Rightarrow>
                                   Some (s\<lparr>boundDN := fst (assert_string (Value dn))\<rparr>,
                                         snd (assert_string (Value dn))))
                         else Some (s, result)) of
                     None \<Rightarrow> (Panicked, s)
                   | Some (s, result) \<Rightarrow>
                       (case Option.bind (child bindDnPacket 0) (\<lambda>c. assert_uint64 (Value c)) of
                          None \<Rightarrow> (Panicked, s)
                        | Some messageID \<Rightarrow>
                            (let responsePacket = encodeBindResponse messageID ldapResultCode;
                                 sent = sendPacket e (trace s) responsePacket;
                                 s = emit (Sent responsePacket sent) s
                             in (Returned (if \<not> sent then False else result), s)))))))"

text \<open>
  The block that both the bind case and the search case run:
  \<open>ok = server.sendBindDnRequest(conn, &boundDN); if !ok { break handler }; isSentBindDn = true\<close>.
\<close>

definition forward :: "env \<Rightarrow> session \<Rightarrow> flow \<times> session" where
  "forward e s =
     (case sendBindDnRequest e s of
        (Panicked, s) \<Rightarrow> (Panic, s)
      | (Returned ok, s) \<Rightarrow>
          if \<not> ok then (BreakHandler, s) else (Continue, s\<lparr>isSentBindDn := True\<rparr>))"

subsection \<open>The cases of the dispatch\<close>

text \<open>The bind case (\<open>case ApplicationBindRequest\<close>).\<close>

definition handleBind :: "env \<Rightarrow> packet \<Rightarrow> uint64 \<Rightarrow> packet \<Rightarrow> session \<Rightarrow> flow \<times> session" where
  "handleBind e packet messageID req s =
     (let s = emit countBinds s;
          ldapResultCode = HandleBindRequest e (trace s) req;
          s = emit (BindChain Wire req ldapResultCode) s
      in (case (if ldapResultCode = LDAPResultSuccess
                then (case child req 1 of
                        None \<Rightarrow> (Panic, s)
                      | Some dn \<Rightarrow>
                          (if \<not> snd (assert_string (Value dn))
                           then (BreakHandler, s\<lparr>boundDN := fst (assert_string (Value dn))\<rparr>)
                           else (Continue, s\<lparr>boundDN := fst (assert_string (Value dn))\<rparr>)))
                else (Continue, s)) of
            (Continue, s) \<Rightarrow>
              (let responsePacket = encodeBindResponse messageID ldapResultCode;
                   sent = sendPacket e (trace s) responsePacket;
                   s = emit (Sent responsePacket sent) s
               in if \<not> sent then (BreakHandler, s)
                  else (let bindDnIsEmpty = False;
                            bindDnIsEmpty = judgeBindDnIsEmpty packet bindDnIsEmpty
                        in if bindDnIsEmpty then forward e s else (Continue, s)))
          | (fl, s) \<Rightarrow> (fl, s)))"

text \<open>The search case (\<open>case ApplicationSearchRequest\<close>).\<close>

definition handleSearch ::
    "env \<Rightarrow> uint64 \<Rightarrow> packet \<Rightarrow> Control list \<Rightarrow> session \<Rightarrow> flow \<times> session" where
  "handleSearch e messageID req controls s =
     (case (if \<not> isSentBindDn s then forward e s else (Continue, s)) of
        (Continue, s) \<Rightarrow>
          let s = emit countSearches s;
              err = HandleSearchRequest e (trace s) req controls messageID (boundDN s);
              s = emit (SearchChain req controls messageID (boundDN s) err) s
          in (case err of
                NoError \<Rightarrow>
                  let responsePacket = encodeSearchDone messageID LDAPResultSuccess;
                      sent = sendPacket e (trace s) responsePacket;
                      s = emit (Sent responsePacket sent) s
                  in if \<not> sent then (BreakHandler, s) else (Continue, s)
              | LDAPError resultCode \<Rightarrow>
                  let responsePacket = encodeSearchDone messageID resultCode;
                      sent = sendPacket e (trace s) responsePacket;
                      s = emit (Sent responsePacket sent) s
                  in (BreakHandler, s)
              | OtherError \<Rightarrow> (Panic, s))
      | (fl, s) \<Rightarrow> (fl, s))"

text \<open>
  The tail shared by the extended, add, modify, delete, modify-DN and compare cases:
  encode the generic response with the mapped text, send it, leave the loop when the send
  fails.
\<close>

definition respond :: "env \<Rightarrow> uint64 \<Rightarrow> uint8 \<Rightarrow> LDAPResultCode \<Rightarrow> session \<Rightarrow> flow \<times> session" where
  "respond e messageID responseType ldapResultCode s =
     (let responsePacket = encodeLDAPResponse messageID responseType ldapResultCode
                             (LDAPResultCodeMap e ldapResultCode);
          sent = sendPacket e (trace s) responsePacket;
          s = emit (Sent responsePacket sent) s
      in if \<not> sent then (BreakHandler, s) else (Continue, s))"

text \<open>The \<open>default\<close> case of the switch.\<close>

definition handleDefault :: "env \<Rightarrow> uint64 \<Rightarrow> session \<Rightarrow> flow \<times> session" where
  "handleDefault e messageID s =
     (let responsePacket = encodeLDAPResponse messageID ApplicationAddResponse
                             LDAPResultOperationsError ''Unsupported operation: add'';
          sent = sendPacket e (trace s) responsePacket;
          s = emit (Sent responsePacket sent) s
      in (BreakHandler, s))"

text \<open>
  The switch on \<open>req.Tag\<close>. The case constants are pairwise different, so the order of
  the tests does not matter; \<open>default\<close> is the last branch.
\<close>

definition dispatch ::
    "env \<Rightarrow> packet \<Rightarrow> uint64 \<Rightarrow> packet \<Rightarrow> Control list \<Rightarrow> session \<Rightarrow> flow \<times> session" where
  "dispatch e packet messageID req controls s =
     (if Tag req = ApplicationBindRequest then handleBind e packet messageID req s
      else if Tag req = ApplicationSearchRequest then handleSearch e messageID req controls s
      else if Tag req = ApplicationUnbindRequest then (BreakHandler, emit countUnbinds s)
      else if Tag req = ApplicationExtendedRequest then
        (let ldapResultCode = HandleExtendedRequest e (trace s) req (boundDN s);
             s = emit (ExtendedChain req (boundDN s) ldapResultCode) s
         in respond e messageID ApplicationExtendedResponse ldapResultCode s)
      else if Tag req = ApplicationAbandonRequest then
        (BreakHandler, emit (AbandonChain req (boundDN s)) s)
      else if Tag req = ApplicationAddRequest then
        (let ldapResultCode = HandleAddRequest e (trace s) req (boundDN s);
             s = emit (AddChain req (boundDN s) ldapResultCode) s
         in respond e messageID ApplicationAddResponse ldapResultCode s)
      else if Tag req = ApplicationModifyRequest then
        (let ldapResultCode = HandleModifyRequest e (trace s) req (boundDN s);
             s = emit (ModifyChain req (boundDN s) ldapResultCode) s
         in respond e messageID ApplicationModifyResponse ldapResultCode s)
      else if Tag req = ApplicationDelRequest then
        (let ldapResultCode = HandleDeleteRequest e (trace s) req (boundDN s);
             s = emit (DeleteChain req (boundDN s) ldapResultCode) s
         in respond e messageID ApplicationDelResponse ldapResultCode s)
      else if Tag req = ApplicationModifyDNRequest then
        (let ldapResultCode = HandleModifyDNRequest e (trace s) req (boundDN s);
             s = emit (ModifyDNChain req (boundDN s) ldapResultCode) s
         in respond e messageID ApplicationModifyDNResponse ldapResultCode s)
      else if Tag req = ApplicationCompareRequest then
        (let ldapResultCode = HandleCompareRequest e (trace s) req (boundDN s);
             s = emit (CompareChain req (boundDN s) ldapResultCode) s
         in respond e messageID ApplicationCompareResponse ldapResultCode s)
      else handleDefault e messageID s)"

subsection \<open>The session loop\<close>

text \<open>
  The loop over the controls (lines 47-52). The calls of \<open>DecodeControl\<close> are made in
  order on the children of the third child of the envelope; a panic in one of them ends
  everything (\<open>None\<close>). The result is the list of controls and the envelope as the calls
  leave it: only the controls can have changed.
\<close>

definition with_children :: "packet \<Rightarrow> packet list \<Rightarrow> packet" where
  "with_children p cs =
     Packet (ClassType p) (TagType p) (Tag p) (Value p) (Data p) cs (Description p)"

definition decode_controls :: "env \<Rightarrow> packet \<Rightarrow> (Control list \<times> packet) option" where
  "decode_controls e packet =
     (if length (Children packet) > 2
      then (case those (map (DecodeControl e) (Children (Children packet ! 2))) of
              None \<Rightarrow> None
            | Some decoded \<Rightarrow>
                Some (map ControlOf (Children (Children packet ! 2)),
                      with_children packet
                        ((Children packet)[2 := with_children (Children packet ! 2) decoded])))
      else Some ([], packet))"

text \<open>
  The body of the loop after a packet has been read: the sanity checks, the controls, the
  dispatch. \<open>req\<close> points to the second child, which the decoding of the controls does
  not touch; \<open>packet\<close> is from then on the envelope with the controls as decoded.
\<close>

definition loop_body :: "env \<Rightarrow> packet \<Rightarrow> session \<Rightarrow> flow \<times> session" where
  "loop_body e packet s =
     (if length (Children packet) < 2 then (BreakHandler, s)
      else (case assert_uint64 (Value (Children packet ! 0)) of
              None \<Rightarrow> (BreakHandler, s)
            | Some messageID \<Rightarrow>
                (let req = Children packet ! 1 in
                 if ClassType req \<noteq> ClassApplication then (BreakHandler, s)
                 else (case decode_controls e packet of
                         None \<Rightarrow> (Panic, s)
                       | Some (controls, packet) \<Rightarrow>
                           dispatch e packet messageID req controls s))))"

text \<open>
  What a call of \<open>ber.ReadPacket(conn)\<close> does: it returns \<open>io.EOF\<close>, another error or a
  packet, or it panics inside the decoder of the imported package. A connection delivers a
  finite list of these; when the list is used up the peer has closed the connection, which
  reads as \<open>io.EOF\<close>.
\<close>

datatype read_result = EOF | ReadError | Read packet | ReadPanic

fun handler_loop :: "env \<Rightarrow> read_result list \<Rightarrow> session \<Rightarrow> flow \<times> session" where
  "handler_loop e [] s = (BreakHandler, s)"
| "handler_loop e (EOF # rest) s = (BreakHandler, s)"
| "handler_loop e (ReadError # rest) s = (BreakHandler, s)"
| "handler_loop e (ReadPanic # rest) s = (Panic, s)"
| "handler_loop e (Read packet # rest) s =
     (case loop_body e packet s of
        (Continue, s) \<Rightarrow> handler_loop e rest s
      | (fl, s) \<Rightarrow> (fl, s))"

text \<open>
  \<open>handleConnectionAndSendBindDn\<close>: the loop, then the close collaborators and
  \<open>conn.Close()\<close>. A panic is not recovered, so after one nothing else runs.
\<close>

datatype exit = Closed | Crashed

definition initial :: session where
  "initial = \<lparr>boundDN = [], isSentBindDn = False, trace = []\<rparr>"

definition close_all :: "env \<Rightarrow> session \<Rightarrow> session" where
  "close_all e s =
     emit ConnClose (fold (\<lambda>c s. emit (CloseCall c (boundDN s)) s) (CloseFns e) s)"

definition handleConnectionAndSendBindDn :: "env \<Rightarrow> read_result list \<Rightarrow> exit \<times> session" where
  "handleConnectionAndSendBindDn e reads =
     (case handler_loop e reads initial of
        (Panic, s) \<Rightarrow> (Crashed, s)
      | (fl, s) \<Rightarrow> (Closed, close_all e s))"

subsection \<open>Reading a trace\<close>

text \<open>The events a step added to the trace.\<close>

definition new_events :: "session \<Rightarrow> session \<Rightarrow> event list" where
  "new_events s s' = drop (length (trace s)) (trace s')"

fun is_forward :: "event \<Rightarrow> bool" where
  "is_forward (BindChain Synthetic q c) = True"
| "is_forward ev = False"

fun is_sent :: "event \<Rightarrow> bool" where
  "is_sent (Sent r ok) = True"
| "is_sent ev = False"

fun is_close :: "event \<Rightarrow> bool" where
  "is_close (CloseCall c dn) = True"
| "is_close ev = False"

text \<open>The synthetic bind chain calls, the send calls and the close calls of a trace.\<close>

definition forwards :: "event list \<Rightarrow> event list" where
  "forwards tr = filter is_forward tr"

definition sends :: "event list \<Rightarrow> event list" where
  "sends tr = filter is_sent tr"

definition closes :: "event list \<Rightarrow> event list" where
  "closes tr = filter is_close tr"

subsection \<open>Notions used to state the properties\<close>

text \<open>
  The request the forwarder hands to the bind chain, the code the chain returns for it in
  the state \<open>s\<close>, whether the response to it is then sent, and the three calls of one
  forwarding attempt.
\<close>

definition bindDnReq :: "env \<Rightarrow> packet" where
  "bindDnReq e = Children (makeBindDnRequest (ber e) (BindDn e) (BindPass e)) ! 1"

definition fwd_code :: "env \<Rightarrow> session \<Rightarrow> LDAPResultCode" where
  "fwd_code e s = HandleBindRequest e (trace s @ [countBinds]) (bindDnReq e)"

definition fwd_sent :: "env \<Rightarrow> session \<Rightarrow> bool" where
  "fwd_sent e s =
     sendPacket e (trace s @ [countBinds, BindChain Synthetic (bindDnReq e) (fwd_code e s)])
       (encodeBindResponse 0 (fwd_code e s))"

definition fwd_events :: "env \<Rightarrow> session \<Rightarrow> event list" where
  "fwd_events e s =
     [countBinds, BindChain Synthetic (bindDnReq e) (fwd_code e s),
      Sent (encodeBindResponse 0 (fwd_code e s)) (fwd_sent e s)]"

text \<open>
  An envelope that passes the sanity checks of the loop, with its message identifier and
  its operation node.
\<close>

definition well_formed :: "packet \<Rightarrow> uint64 \<Rightarrow> packet \<Rightarrow> bool" where
  "well_formed p mid req \<longleftrightarrow>
     2 \<le> length (Children p) \<and> Value (Children p ! 0) = VUint64 mid \<and>
     Children p ! 1 = req \<and> ClassType req = ClassApplication"




subsection \<open>Example inputs\<close>

text \<open>
  Packets as the decoder delivers them, with short-form BER lengths, and an environment
  whose bind chain returns a fixed code for a bind request with three children (and a
  protocol error otherwise), whose other chains succeed and whose transport never fails.
\<close>

definition ex_tlv :: "packet \<Rightarrow> uint8 list" where
  "ex_tlv p = [ClassType p + TagType p + Tag p, of_nat (length (Data p))] @ Data p"

definition ex_primitive :: "uint8 \<Rightarrow> uint8 \<Rightarrow> val \<Rightarrow> uint8 list \<Rightarrow> packet" where
  "ex_primitive c g v d = Packet c TypePrimitive g v d [] []"

definition ex_constructed :: "uint8 \<Rightarrow> uint8 \<Rightarrow> packet list \<Rightarrow> packet" where
  "ex_constructed c g cs = Packet c TypeConstructed g VNil (concat (map ex_tlv cs)) cs []"

definition ex_envelope :: "uint64 \<Rightarrow> packet \<Rightarrow> packet" where
  "ex_envelope mid req =
     ex_constructed ClassUniversal TagSequence
       [ex_primitive ClassUniversal TagInteger (VUint64 mid) [ucast mid], req]"

definition ex_bind_request :: "string \<Rightarrow> string \<Rightarrow> packet" where
  "ex_bind_request dn pw =
     ex_constructed ClassApplication ApplicationBindRequest
       [ex_primitive ClassUniversal TagInteger (VUint64 3) [3],
        ex_primitive ClassUniversal TagOctetString (VString dn) (map of_char dn),
        ex_primitive ClassContext 0 VNil (map of_char pw)]"

definition ex_search_request :: packet where
  "ex_search_request =
     ex_constructed ClassApplication ApplicationSearchRequest
       [ex_primitive ClassUniversal TagOctetString (VString ''dc=x'') (map of_char ''dc=x''),
        ex_primitive ClassUniversal 10 (VUint64 2) [2],
        ex_primitive ClassUniversal 10 (VUint64 0) [0],
        ex_primitive ClassUniversal TagInteger (VUint64 0) [0],
        ex_primitive ClassUniversal TagInteger (VUint64 0) [0],
        ex_primitive ClassUniversal 1 (VBool False) [0],
        ex_primitive ClassContext 7 VNil (map of_char ''cn''),
        ex_constructed ClassUniversal TagSequence []]"

definition ex_add_request :: packet where
  "ex_add_request =
     ex_constructed ClassApplication ApplicationAddRequest
       [ex_primitive ClassUniversal TagOctetString (VString ''cn=n,dc=x'')
          (map of_char ''cn=n,dc=x''),
        ex_constructed ClassUniversal TagSequence []]"




text \<open>An envelope with the message identifier only.\<close>

definition ex_short_envelope :: packet where
  "ex_short_envelope =
     ex_constructed ClassUniversal TagSequence
       [ex_primitive ClassUniversal TagInteger (VUint64 1) [1]]"



text \<open>
  The paged-results control (type 1.2.840.113556.1.4.319) with page size 10 and an empty
  cookie. As read, its value is one octet string holding the bytes of a sequence. The
  decoder of the package parses these bytes and hangs the sequence under the value node;
  the cookie then is a node of its own, an octet string without content.
\<close>

definition ex_paging_value_bytes :: "uint8 list" where
  "ex_paging_value_bytes = [48, 5, 2, 1, 10, 4, 0]"

definition ex_paging_control :: packet where
  "ex_paging_control =
     ex_constructed ClassUniversal TagSequence
       [ex_primitive ClassUniversal TagOctetString (VString ''1.2.840.113556.1.4.319'')
          (map of_char ''1.2.840.113556.1.4.319''),
        ex_primitive ClassUniversal TagOctetString (VString (map (\<lambda>b. char_of (unat b)) ex_paging_value_bytes))
          ex_paging_value_bytes]"

definition ex_paging_control_decoded :: packet where
  "ex_paging_control_decoded =
     with_children ex_paging_control
       [ex_primitive ClassUniversal TagOctetString (VString ''1.2.840.113556.1.4.319'')
          (map of_char ''1.2.840.113556.1.4.319''),
        Packet ClassUniversal TypePrimitive TagOctetString VNil ex_paging_value_bytes
          [ex_constructed ClassUniversal TagSequence
             [ex_primitive ClassUniversal TagInteger (VUint64 10) [10],
              ex_primitive ClassUniversal TagOctetString VOther []]]
          []]"

text \<open>
  An example decoder with the behaviour of the package's decoder on the controls used
  below: it panics on a control without children (the index 0 is out of range), it
  re-parses the value of the paged-results control in place, and it leaves any other
  control as it is. It does not fill in the descriptions, which the handler never reads.
\<close>

definition ex_DecodeControl :: "packet \<Rightarrow> packet option" where
  "ex_DecodeControl c =
     (if Children c = [] then None
      else if c = ex_paging_control then Some ex_paging_control_decoded
      else Some c)"

definition ex_env :: "LDAPResultCode \<Rightarrow> env" where
  "ex_env c =
     \<lparr>HandleBindRequest = (\<lambda>h q. if length (Children q) = 3 then c else 2),
      HandleSearchRequest = (\<lambda>h q cs m dn. NoError),
      HandleExtendedRequest = (\<lambda>h q dn. LDAPResultSuccess),
      HandleAddRequest = (\<lambda>h q dn. LDAPResultSuccess),
      HandleModifyRequest = (\<lambda>h q dn. LDAPResultSuccess),
      HandleDeleteRequest = (\<lambda>h q dn. LDAPResultSuccess),
      HandleModifyDNRequest = (\<lambda>h q dn. LDAPResultSuccess),
      HandleCompareRequest = (\<lambda>h q dn. LDAPResultSuccess),
      sendPacket = (\<lambda>h r. True),
      DecodeControl = ex_DecodeControl,
      LDAPResultCodeMap = (\<lambda>c. if c = LDAPResultSuccess then ''Success'' else ''Error''),
      CloseFns = [''dc=x''],
      BindDn = ''cn=svc'',
      BindPass = ''secret'',
      ber = \<lparr>EncodeInteger = (\<lambda>v. [ucast v]), Bytes = ex_tlv\<rparr>\<rparr>"



text \<open>A bind chain that accepts the service identity only.\<close>

definition ex_env_service_only :: env where
  "ex_env_service_only =
     (ex_env 49)\<lparr>HandleBindRequest :=
        (\<lambda>h q. if q = bindDnReq (ex_env 49) then LDAPResultSuccess else 49)\<rparr>"

section \<open>Properties\<close>

subsection \<open>The name tables\<close>

lemma ClassMap_Universal: "index_map ClassMap c = ''Universal'' \<longleftrightarrow> c = ClassUniversal"
  by (simp add: index_map_def ClassMap_def ClassUniversal_def ClassApplication_def
      ClassContext_def ClassPrivate_def)

lemma TypeMap_Primative: "index_map TypeMap t = ''Primative'' \<longleftrightarrow> t = TypePrimitive"
  by (simp add: index_map_def TypeMap_def TypePrimitive_def TypeConstructed_def)

lemma TagMap_Octet_String: "index_map TagMap g = ''Octet String'' \<longleftrightarrow> g = TagOctetString"
  by (simp add: index_map_def TagMap_def TagOctetString_def TagInteger_def TagSequence_def)

subsection \<open>The predicate evaluator\<close>

lemma fold_or:
  "(\<And>c r. c \<in> set cs \<Longrightarrow> f c r = (r \<or> P c)) \<Longrightarrow> fold f cs r = (r \<or> (\<exists>c\<in>set cs. P c))"
  by (induction cs arbitrary: r) auto

lemma judge_nodes:
  "judgeBindDnIsEmpty p r = (r \<or> (\<exists>n\<in>set (nodes p). is_empty_octet_string n))"
proof (induction p r rule: judgeBindDnIsEmpty.induct)
  case (1 c t g v d cs descr r)
  let ?r1 = "r \<or> is_empty_octet_string (Packet c t g v d cs descr)"
  have step: "fold judgeBindDnIsEmpty cs ?r1 =
      (?r1 \<or> (\<exists>x\<in>set cs. \<exists>n\<in>set (nodes x). is_empty_octet_string n))"
    by (rule fold_or) (rule "1.IH", simp_all)
  have "judgeBindDnIsEmpty (Packet c t g v d cs descr) r = fold judgeBindDnIsEmpty cs ?r1"
    by (auto simp: Let_def is_empty_octet_string_def ClassMap_Universal TypeMap_Primative
        TagMap_Octet_String)
  with step show ?case by auto
qed

text \<open>
  Claim C4. Called with the result variable at its default \<open>False\<close>, the evaluator returns
  true exactly when some node of the tree (the root included) has universal class,
  primitive type, the octet-string tag and content of length zero; with no such node the
  result stays false.
\<close>

theorem judgeBindDnIsEmpty_iff_empty_octet_string:
  "judgeBindDnIsEmpty p False \<longleftrightarrow> (\<exists>n\<in>set (nodes p). is_empty_octet_string n)"
  by (simp add: judge_nodes)

text \<open>
  The envelope of an anonymous bind (empty name) has such a node; the envelope of a bind
  with the name \<open>cn=a\<close> and the password \<open>pw\<close> has none.
\<close>

theorem judgeBindDnIsEmpty_iff_empty_octet_string_witness:
  "judgeBindDnIsEmpty (ex_envelope 1 (ex_bind_request [] [])) False \<and>
   (\<exists>n\<in>set (nodes (ex_envelope 1 (ex_bind_request [] []))). is_empty_octet_string n) \<and>
   \<not> judgeBindDnIsEmpty (ex_envelope 1 (ex_bind_request ''cn=a'' ''pw'')) False \<and>
   \<not> (\<exists>n\<in>set (nodes (ex_envelope 1 (ex_bind_request ''cn=a'' ''pw''))). is_empty_octet_string n)"
proof -
  have 1: "judgeBindDnIsEmpty (ex_envelope 1 (ex_bind_request [] [])) False" by code_simp
  have 2: "\<not> judgeBindDnIsEmpty (ex_envelope 1 (ex_bind_request ''cn=a'' ''pw'')) False"
    by code_simp
  from 1 2 show ?thesis
    using judgeBindDnIsEmpty_iff_empty_octet_string [of "ex_envelope 1 (ex_bind_request [] [])"]
      judgeBindDnIsEmpty_iff_empty_octet_string [of "ex_envelope 1 (ex_bind_request ''cn=a'' ''pw'')"]
    by blast
qed

subsection \<open>The forwarder and the steps of the loop\<close>

lemma makeBindDnRequest_children:
  "Children (makeBindDnRequest cd u p) =
     [Packet ClassUniversal TypePrimitive TagInteger (VUint64 0) (EncodeInteger cd 0) [] ''MessageID'',
      Packet ClassApplication TypeConstructed ApplicationBindRequest VNil
        (Bytes cd (Packet ClassUniversal TypePrimitive TagInteger (VUint64 3) (EncodeInteger cd 3) [] ''Version'')
         @ Bytes cd (Packet ClassUniversal TypePrimitive TagOctetString (VString u) (map of_char u) [] ''User Name'')
         @ Bytes cd (Packet ClassContext TypePrimitive 0 (VString p) (map of_char p) [] ''Password''))
        [Packet ClassUniversal TypePrimitive TagInteger (VUint64 3) (EncodeInteger cd 3) [] ''Version'',
         Packet ClassUniversal TypePrimitive TagOctetString (VString u) (map of_char u) [] ''User Name'',
         Packet ClassContext TypePrimitive 0 (VString p) (map of_char p) [] ''Password'']
        ''Bind Request'']"
  by (simp add: makeBindDnRequest_def Let_def AppendChild_def Encode_def NewInteger_def NewString_def)

lemma sendBindDnRequest_eq:
  "sendBindDnRequest e s =
     (Returned (fwd_code e s = LDAPResultSuccess \<and> fwd_sent e s),
      s\<lparr>boundDN := (if fwd_code e s = LDAPResultSuccess then BindDn e else boundDN s),
        trace := trace s @ fwd_events e s\<rparr>)"
  by (simp add: sendBindDnRequest_def Let_def child_def makeBindDnRequest_children bindDnReq_def
      fwd_code_def fwd_sent_def fwd_events_def emit_def assert_string_def assert_uint64_def)

lemma forward_eq:
  "forward e s =
     (if fwd_code e s = LDAPResultSuccess \<and> fwd_sent e s then Continue else BreakHandler,
      s\<lparr>boundDN := (if fwd_code e s = LDAPResultSuccess then BindDn e else boundDN s),
        isSentBindDn := (fwd_code e s = LDAPResultSuccess \<and> fwd_sent e s) \<or> isSentBindDn s,
        trace := trace s @ fwd_events e s\<rparr>)"
  by (auto simp add: forward_def sendBindDnRequest_eq)

lemma forwards_fwd_events: "forwards (fwd_events e s) = [BindChain Synthetic (bindDnReq e) (fwd_code e s)]"
  by (simp add: forwards_def fwd_events_def)

lemma forwards_append: "forwards (xs @ ys) = forwards xs @ forwards ys"
  by (simp add: forwards_def)

lemma loop_body_well_formed:
  "well_formed p mid req \<Longrightarrow> decode_controls e p = Some (cs, p') \<Longrightarrow>
     loop_body e p s = dispatch e p' mid req cs s"
  by (simp add: well_formed_def loop_body_def assert_uint64_def Let_def)

lemma loop_body_decode_panic:
  "well_formed p mid req \<Longrightarrow> decode_controls e p = None \<Longrightarrow> loop_body e p s = (Panic, s)"
  by (simp add: well_formed_def loop_body_def assert_uint64_def Let_def)

lemma tags_distinct:
  "ApplicationSearchRequest \<noteq> ApplicationBindRequest"
  "ApplicationUnbindRequest \<noteq> ApplicationBindRequest"
  "ApplicationUnbindRequest \<noteq> ApplicationSearchRequest"
  "ApplicationAbandonRequest \<noteq> ApplicationBindRequest"
  "ApplicationAbandonRequest \<noteq> ApplicationSearchRequest"
  "ApplicationAbandonRequest \<noteq> ApplicationUnbindRequest"
  "ApplicationAbandonRequest \<noteq> ApplicationExtendedRequest"
  by (simp_all add: ApplicationBindRequest_def ApplicationSearchRequest_def
      ApplicationUnbindRequest_def ApplicationAbandonRequest_def ApplicationExtendedRequest_def)

lemma handleSearch_forwards:
  "length (forwards (trace (snd (handleSearch e mid req cs s)))) =
     length (forwards (trace s)) + (if isSentBindDn s then 0 else 1)"
  by (auto simp add: handleSearch_def forward_eq Let_def emit_def forwards_append
      forwards_fwd_events split: search_error.splits) (simp_all add: forwards_def)

lemma handleSearch_prefix:
  "\<not> isSentBindDn s \<Longrightarrow>
     take 3 (new_events s (snd (handleSearch e mid req cs s))) = fwd_events e s"
  by (auto simp add: handleSearch_def forward_eq Let_def emit_def new_events_def
      split: search_error.splits) (simp_all add: fwd_events_def)

lemma handleBind_not_judged:
  "\<not> judgeBindDnIsEmpty p False \<Longrightarrow>
     forwards (trace (snd (handleBind e p mid req s))) = forwards (trace s) \<and>
     isSentBindDn (snd (handleBind e p mid req s)) = isSentBindDn s"
  by (auto simp add: handleBind_def Let_def emit_def forwards_def split: option.splits)

text \<open>
  Claim C1, as the code has it. A search request whose controls decode triggers the
  forwarder exactly when \<open>isSentBindDn\<close> is false, whatever the bound identity is: the
  number of synthetic bind chain calls grows by one then (and the three calls of the
  forwarder come first in the step), and by none when the flag is true. A bind request
  whose envelope, as the decoding of its controls leaves it, the evaluator does not judge
  empty triggers no forwarding and leaves the flag as it was; so a search that follows a
  successful bind of that kind forwards as long as the flag is still false.
\<close>

theorem search_forwards_iff_not_sent:
  "(well_formed p mid req \<and> Tag req = ApplicationSearchRequest \<and>
    decode_controls e p \<noteq> None \<longrightarrow>
      length (forwards (trace (snd (loop_body e p s)))) =
        length (forwards (trace s)) + (if isSentBindDn s then 0 else 1) \<and>
      (\<not> isSentBindDn s \<longrightarrow> take 3 (new_events s (snd (loop_body e p s))) = fwd_events e s)) \<and>
   (well_formed p mid req \<and> Tag req = ApplicationBindRequest \<and>
    decode_controls e p = Some (cs, p') \<and> \<not> judgeBindDnIsEmpty p' False \<longrightarrow>
      forwards (trace (snd (loop_body e p s))) = forwards (trace s) \<and>
      isSentBindDn (snd (loop_body e p s)) = isSentBindDn s)"
proof -
  have search: "well_formed p mid req \<and> Tag req = ApplicationSearchRequest \<and>
    decode_controls e p \<noteq> None \<longrightarrow>
      length (forwards (trace (snd (loop_body e p s)))) =
        length (forwards (trace s)) + (if isSentBindDn s then 0 else 1) \<and>
      (\<not> isSentBindDn s \<longrightarrow> take 3 (new_events s (snd (loop_body e p s))) = fwd_events e s)"
  proof (rule impI)
    assume a: "well_formed p mid req \<and> Tag req = ApplicationSearchRequest \<and>
      decode_controls e p \<noteq> None"
    then obtain cs1 p1 where d: "decode_controls e p = Some (cs1, p1)" by auto
    from a have wf: "well_formed p mid req" and tag: "Tag req = ApplicationSearchRequest"
      by simp_all
    have "loop_body e p s = handleSearch e mid req cs1 s"
      by (simp add: loop_body_well_formed [OF wf d] dispatch_def tags_distinct tag)
    then show "length (forwards (trace (snd (loop_body e p s)))) =
        length (forwards (trace s)) + (if isSentBindDn s then 0 else 1) \<and>
      (\<not> isSentBindDn s \<longrightarrow> take 3 (new_events s (snd (loop_body e p s))) = fwd_events e s)"
      by (simp add: handleSearch_forwards handleSearch_prefix)
  qed
  have bind: "well_formed p mid req \<and> Tag req = ApplicationBindRequest \<and>
    decode_controls e p = Some (cs, p') \<and> \<not> judgeBindDnIsEmpty p' False \<longrightarrow>
      forwards (trace (snd (loop_body e p s))) = forwards (trace s) \<and>
      isSentBindDn (snd (loop_body e p s)) = isSentBindDn s"
  proof (rule impI)
    assume a: "well_formed p mid req \<and> Tag req = ApplicationBindRequest \<and>
      decode_controls e p = Some (cs, p') \<and> \<not> judgeBindDnIsEmpty p' False"
    then have "loop_body e p s = handleBind e p' mid req s"
      by (simp add: loop_body_well_formed [of p mid req e cs p'] dispatch_def)
    with a show "forwards (trace (snd (loop_body e p s))) = forwards (trace s) \<and>
      isSentBindDn (snd (loop_body e p s)) = isSentBindDn s"
      by (simp add: handleBind_not_judged)
  qed
  from search bind show ?thesis by (rule conjI)
qed

text \<open>A search as the first request, and a bind with a name and a password.\<close>

theorem search_forwards_iff_not_sent_witness:
  "well_formed (ex_envelope 2 ex_search_request) 2 ex_search_request \<and>
   Tag ex_search_request = ApplicationSearchRequest \<and>
   decode_controls (ex_env LDAPResultSuccess) (ex_envelope 2 ex_search_request) \<noteq> None \<and>
   \<not> isSentBindDn initial \<and>
   length (forwards (trace (snd (loop_body (ex_env LDAPResultSuccess) (ex_envelope 2 ex_search_request) initial)))) = 1 \<and>
   take 3 (new_events initial (snd (loop_body (ex_env LDAPResultSuccess) (ex_envelope 2 ex_search_request) initial))) =
     fwd_events (ex_env LDAPResultSuccess) initial \<and>
   well_formed (ex_envelope 1 (ex_bind_request ''cn=a'' ''pw'')) 1 (ex_bind_request ''cn=a'' ''pw'') \<and>
   Tag (ex_bind_request ''cn=a'' ''pw'') = ApplicationBindRequest \<and>
   decode_controls (ex_env LDAPResultSuccess) (ex_envelope 1 (ex_bind_request ''cn=a'' ''pw'')) =
     Some ([], ex_envelope 1 (ex_bind_request ''cn=a'' ''pw'')) \<and>
   \<not> judgeBindDnIsEmpty (ex_envelope 1 (ex_bind_request ''cn=a'' ''pw'')) False \<and>
   forwards (trace (snd (loop_body (ex_env LDAPResultSuccess) (ex_envelope 1 (ex_bind_request ''cn=a'' ''pw'')) initial))) = [] \<and>
   \<not> isSentBindDn (snd (loop_body (ex_env LDAPResultSuccess) (ex_envelope 1 (ex_bind_request ''cn=a'' ''pw'')) initial))"
proof -
  have 1: "well_formed (ex_envelope 2 ex_search_request) 2 ex_search_request" by code_simp
  have 2: "Tag ex_search_request = ApplicationSearchRequest" by code_simp
  have 3: "well_formed (ex_envelope 1 (ex_bind_request ''cn=a'' ''pw'')) 1 (ex_bind_request ''cn=a'' ''pw'')"
    by code_simp
  have 4: "Tag (ex_bind_request ''cn=a'' ''pw'') = ApplicationBindRequest" by code_simp
  have 5: "\<not> judgeBindDnIsEmpty (ex_envelope 1 (ex_bind_request ''cn=a'' ''pw'')) False"
    by code_simp
  have 6: "\<not> isSentBindDn initial" "forwards (trace initial) = []"
    by (simp_all add: initial_def forwards_def)
  have 7: "decode_controls (ex_env LDAPResultSuccess) (ex_envelope 2 ex_search_request) \<noteq> None"
    by code_simp
  have 8: "decode_controls (ex_env LDAPResultSuccess) (ex_envelope 1 (ex_bind_request ''cn=a'' ''pw'')) =
     Some ([], ex_envelope 1 (ex_bind_request ''cn=a'' ''pw''))"
    by code_simp
  from 1 2 3 4 5 6 7 8 show ?thesis
    using search_forwards_iff_not_sent [where p = "ex_envelope 2 ex_search_request" and mid = 2
        and req = ex_search_request and s = initial and e = "ex_env LDAPResultSuccess"]
      search_forwards_iff_not_sent [where p = "ex_envelope 1 (ex_bind_request ''cn=a'' ''pw'')"
        and mid = 1 and req = "ex_bind_request ''cn=a'' ''pw''" and s = initial
        and e = "ex_env LDAPResultSuccess" and cs = "[]"
        and p' = "ex_envelope 1 (ex_bind_request ''cn=a'' ''pw'')"]
    by simp
qed

text \<open>
  Claim C1 as stated fails. A client binds as \<open>cn=a\<close> with a password; the bind chain
  returns success, the envelope holds no empty octet string, and the loop goes on with the
  identity \<open>cn=a\<close> and the flag still false. The search that follows triggers the
  forwarder, and the search chain runs under the service identity.
\<close>

theorem search_after_bind_forwards_counterexample:
  "\<not> judgeBindDnIsEmpty (ex_envelope 1 (ex_bind_request ''cn=a'' ''pw'')) False \<and>
   handler_loop (ex_env LDAPResultSuccess) [Read (ex_envelope 1 (ex_bind_request ''cn=a'' ''pw''))] initial =
     (BreakHandler,
      \<lparr>boundDN = ''cn=a'', isSentBindDn = False,
       trace = [countBinds, BindChain Wire (ex_bind_request ''cn=a'' ''pw'') LDAPResultSuccess,
                Sent (encodeBindResponse 1 LDAPResultSuccess) True]\<rparr>) \<and>
   trace (snd (handleConnectionAndSendBindDn (ex_env LDAPResultSuccess)
     [Read (ex_envelope 1 (ex_bind_request ''cn=a'' ''pw'')), Read (ex_envelope 2 ex_search_request)])) =
     [countBinds, BindChain Wire (ex_bind_request ''cn=a'' ''pw'') LDAPResultSuccess,
      Sent (encodeBindResponse 1 LDAPResultSuccess) True,
      countBinds, BindChain Synthetic (bindDnReq (ex_env LDAPResultSuccess)) LDAPResultSuccess,
      Sent (encodeBindResponse 0 LDAPResultSuccess) True,
      countSearches, SearchChain ex_search_request [] 2 ''cn=svc'' NoError,
      Sent (encodeSearchDone 2 LDAPResultSuccess) True,
      CloseCall ''dc=x'' ''cn=svc'', ConnClose]"
  by code_simp





subsection \<open>Counting the forwarding attempts\<close>



lemma respond_count:
  "respond e mid rt c s = (fl, s') \<Longrightarrow>
     forwards (trace s') = forwards (trace s) \<and> isSentBindDn s' = isSentBindDn s \<and> boundDN s' = boundDN s"
  by (auto simp add: respond_def Let_def emit_def forwards_def split: if_splits)


lemma loop_body_cases:
  "(\<exists>mid cs p'. well_formed p mid (Children p ! 1) \<and> decode_controls e p = Some (cs, p') \<and>
          loop_body e p s = dispatch e p' mid (Children p ! 1) cs s) \<or>
   loop_body e p s = (BreakHandler, s) \<or> loop_body e p s = (Panic, s)"
  by (auto simp add: loop_body_def well_formed_def assert_uint64_def Let_def
      split: val.splits option.splits)







subsection \<open>Malformed and unsupported requests\<close>

text \<open>
  Claim C6. An envelope with fewer than two children, or whose first child does not hold
  a \<open>uint64\<close>, or whose second child is not of class application, ends the loop with the
  session state untouched: no call is made and nothing is sent, and the reads that follow
  are never looked at.
\<close>

theorem malformed_envelope_ends_session:
  "length (Children p) < 2 \<or> (\<forall>m. Value (Children p ! 0) \<noteq> VUint64 m) \<or>
   ClassType (Children p ! 1) \<noteq> ClassApplication \<Longrightarrow>
     loop_body e p s = (BreakHandler, s) \<and>
     handler_loop e (Read p # rest) s = (BreakHandler, s) \<and>
     sends (new_events s (snd (handler_loop e (Read p # rest) s))) = []"
  by (auto simp add: loop_body_def assert_uint64_def new_events_def sends_def Let_def
      split: val.splits)

text \<open>An envelope with one child, followed by a search that is never read.\<close>

theorem malformed_envelope_ends_session_witness:
  "length (Children ex_short_envelope) < 2 \<and>
   loop_body (ex_env LDAPResultSuccess) ex_short_envelope initial = (BreakHandler, initial) \<and>
   handler_loop (ex_env LDAPResultSuccess)
     [Read ex_short_envelope, Read (ex_envelope 2 ex_search_request)] initial = (BreakHandler, initial)"
proof -
  have 1: "length (Children ex_short_envelope) < 2" by code_simp
  from 1 show ?thesis
    using malformed_envelope_ends_session [where p = ex_short_envelope
        and e = "ex_env LDAPResultSuccess" and s = initial
        and rest = "[Read (ex_envelope 2 ex_search_request)]"]
    by blast
qed




subsection \<open>The flag after a forwarding attempt\<close>

lemma handleBind_forward:
  "forwards (new_events s (snd (handleBind e p mid req s))) \<noteq> [] \<Longrightarrow>
     \<exists>s2 c. handleBind e p mid req s = forward e s2 \<and> isSentBindDn s2 = isSentBindDn s \<and>
       trace s2 = trace s @ [countBinds, BindChain Wire req c, Sent (encodeBindResponse mid c) True]"
  by (auto simp add: handleBind_def Let_def emit_def new_events_def forwards_def
      split: option.splits if_splits)

lemma forward_attempt:
  assumes "forward e s2 = (fl, s')"
  shows "trace s' = trace s2 @ fwd_events e s2 \<and>
     (if fwd_code e s2 = LDAPResultSuccess \<and> fwd_sent e s2 then fl = Continue \<and> isSentBindDn s'
      else fl = BreakHandler \<and> isSentBindDn s' = isSentBindDn s2)"
  using assms by (auto simp add: forward_eq)

lemma handleBind_attempt:
  assumes "handleBind e p mid req s = (fl, s')" and "forwards (new_events s s') \<noteq> []"
  shows "\<exists>pre post c ok.
           new_events s s' = pre @ [countBinds, BindChain Synthetic (bindDnReq e) c,
                                   Sent (encodeBindResponse 0 c) ok] @ post \<and>
           forwards pre = [] \<and>
           (if c = LDAPResultSuccess \<and> ok then isSentBindDn s'
            else fl = BreakHandler \<and> post = [] \<and> isSentBindDn s' = isSentBindDn s)"
proof -
  from assms obtain s2 c1 where f: "forward e s2 = (fl, s')" and b: "isSentBindDn s2 = isSentBindDn s"
    and t: "trace s2 = trace s @ [countBinds, BindChain Wire req c1, Sent (encodeBindResponse mid c1) True]"
    using handleBind_forward [of s e p mid req] by auto
  let ?pre = "[countBinds, BindChain Wire req c1, Sent (encodeBindResponse mid c1) True]"
  from forward_attempt [OF f] t have n: "new_events s s' = ?pre @ fwd_events e s2 @ []"
    by (simp add: new_events_def)
  have "forwards ?pre = []" by (simp add: forwards_def)
  with n forward_attempt [OF f] b show ?thesis
    unfolding fwd_events_def by (intro exI [of _ ?pre] exI [of _ "[]"] exI [of _ "fwd_code e s2"]
        exI [of _ "fwd_sent e s2"]) (auto split: if_splits)
qed

lemma handleSearch_attempt:
  assumes "handleSearch e mid req cs s = (fl, s')" and "forwards (new_events s s') \<noteq> []"
  shows "\<exists>pre post c ok.
           new_events s s' = pre @ [countBinds, BindChain Synthetic (bindDnReq e) c,
                                   Sent (encodeBindResponse 0 c) ok] @ post \<and>
           forwards pre = [] \<and>
           (if c = LDAPResultSuccess \<and> ok then isSentBindDn s'
            else fl = BreakHandler \<and> post = [] \<and> isSentBindDn s' = isSentBindDn s)"
proof -
  from assms have ns: "\<not> isSentBindDn s"
    by (auto simp add: handleSearch_def Let_def emit_def new_events_def forwards_def
        split: search_error.splits if_splits)
  have n: "new_events s s' = [] @ fwd_events e s @ drop 3 (new_events s s')"
    using assms(1) ns
    by (auto simp add: handleSearch_def Let_def emit_def new_events_def forward_eq fwd_events_def
        split: search_error.splits if_splits)
  have r: "if fwd_code e s = LDAPResultSuccess \<and> fwd_sent e s then isSentBindDn s'
        else fl = BreakHandler \<and> drop 3 (new_events s s') = [] \<and> isSentBindDn s' = isSentBindDn s"
    using assms(1) ns
    by (auto simp add: handleSearch_def Let_def emit_def new_events_def forward_eq fwd_events_def
        split: search_error.splits if_splits)
  have "forwards [] = []" by (simp add: forwards_def)
  with n r show ?thesis
    unfolding fwd_events_def by (intro exI [of _ "[]"] exI [of _ "drop 3 (new_events s s')"]
        exI [of _ "fwd_code e s"] exI [of _ "fwd_sent e s"]) (auto split: if_splits)
qed

lemma respond_new:
  "respond e mid rt c s = (fl, s') \<Longrightarrow> forwards (new_events s s') = []"
  by (auto simp add: respond_def Let_def emit_def forwards_def new_events_def split: if_splits)

lemma dispatch_other_forwards:
  "Tag req \<noteq> ApplicationBindRequest \<Longrightarrow> Tag req \<noteq> ApplicationSearchRequest \<Longrightarrow>
     dispatch e p mid req cs s = (fl, s') \<Longrightarrow> forwards (new_events s s') = []"
  by (auto simp add: dispatch_def Let_def handleDefault_def respond_def emit_def new_events_def
      forwards_def split: if_splits)

text \<open>
  Claim C5, as the code has it. A step that makes a forwarding attempt makes exactly one,
  as the three calls of the forwarder. When the attempt succeeds (the bind chain returns
  success and the response is sent) \<open>isSentBindDn\<close> is true after the step. When it fails
  the flag is left as it was, nothing more is called, and the loop ends.
\<close>

theorem flag_after_forwarding_attempt:
  assumes "loop_body e p s = (fl, s')" and "forwards (new_events s s') \<noteq> []"
  shows "\<exists>pre post c ok.
           new_events s s' = pre @ [countBinds, BindChain Synthetic (bindDnReq e) c,
                                   Sent (encodeBindResponse 0 c) ok] @ post \<and>
           forwards pre = [] \<and>
           (if c = LDAPResultSuccess \<and> ok then isSentBindDn s'
            else fl = BreakHandler \<and> post = [] \<and> isSentBindDn s' = isSentBindDn s)"
proof -
  from assms(2) have "s' \<noteq> s" by (auto simp add: new_events_def forwards_def)
  with loop_body_cases [of p e s] assms(1) obtain mid cs p'
    where d: "dispatch e p' mid (Children p ! 1) cs s = (fl, s')" by auto
  have "Tag (Children p ! 1) = ApplicationBindRequest \<or>
        Tag (Children p ! 1) = ApplicationSearchRequest"
    using dispatch_other_forwards [OF _ _ d] assms(2) by blast
  then consider (bind) "handleBind e p' mid (Children p ! 1) s = (fl, s')"
    | (search) "handleSearch e mid (Children p ! 1) cs s = (fl, s')"
    | (other) "forwards (new_events s s') = []"
    using d by (auto simp add: dispatch_def tags_distinct)
  then show ?thesis
  proof cases
    case bind
    from handleBind_attempt [OF bind assms(2)] show ?thesis .
  next
    case search
    from handleSearch_attempt [OF search assms(2)] show ?thesis .
  next
    case other
    with assms(2) show ?thesis by simp
  qed
qed

text \<open>A search as the first request, with a bind chain that accepts.\<close>

theorem flag_after_forwarding_attempt_witness:
  "forwards (new_events initial (snd (loop_body (ex_env LDAPResultSuccess) (ex_envelope 1 ex_search_request) initial))) \<noteq> [] \<and>
   (\<exists>pre post c ok.
      new_events initial (snd (loop_body (ex_env LDAPResultSuccess) (ex_envelope 1 ex_search_request) initial)) =
        pre @ [countBinds, BindChain Synthetic (bindDnReq (ex_env LDAPResultSuccess)) c,
               Sent (encodeBindResponse 0 c) ok] @ post \<and>
      forwards pre = [] \<and>
      (if c = LDAPResultSuccess \<and> ok
       then isSentBindDn (snd (loop_body (ex_env LDAPResultSuccess) (ex_envelope 1 ex_search_request) initial))
       else fst (loop_body (ex_env LDAPResultSuccess) (ex_envelope 1 ex_search_request) initial) = BreakHandler \<and>
            post = [] \<and>
            isSentBindDn (snd (loop_body (ex_env LDAPResultSuccess) (ex_envelope 1 ex_search_request) initial)) =
              isSentBindDn initial))"
proof -
  have 1: "forwards (new_events initial (snd (loop_body (ex_env LDAPResultSuccess) (ex_envelope 1 ex_search_request) initial))) \<noteq> []"
    by code_simp
  have 2: "loop_body (ex_env LDAPResultSuccess) (ex_envelope 1 ex_search_request) initial =
      (fst (loop_body (ex_env LDAPResultSuccess) (ex_envelope 1 ex_search_request) initial),
       snd (loop_body (ex_env LDAPResultSuccess) (ex_envelope 1 ex_search_request) initial))"
    by simp
  from flag_after_forwarding_attempt [OF 2 1] 1 show ?thesis by blast
qed

text \<open>
  Claim C5 as stated fails. A search is the first request and the bind chain rejects the
  synthetic bind with code 49: the attempt has been made and the flag is still false.
\<close>

theorem failed_forward_leaves_flag_counterexample:
  "forwards (trace (snd (loop_body (ex_env 49) (ex_envelope 1 ex_search_request) initial))) =
     [BindChain Synthetic (bindDnReq (ex_env 49)) 49] \<and>
   \<not> isSentBindDn (snd (loop_body (ex_env 49) (ex_envelope 1 ex_search_request) initial))"
  by code_simp

subsection \<open>Leaving the loop and closing\<close>





lemma closes_fwd_events: "closes (fwd_events e s) = []"
  by (simp add: closes_def fwd_events_def)
















subsection \<open>The synthetic bind request\<close>

text \<open>
  Claim C9. The packet built by \<open>makeBindDnRequest\<close> has the message identifier 0 as its
  first child and a bind request as its second, with the children version 3, the user
  name and the password. The forwarder builds it from the configured \<open>BindDn\<close> and
  \<open>BindPass\<close>, hands the bind request to the bind chain, and sends the bind response under
  the identifier 0.
\<close>

theorem synthetic_bind_request_contents:
  "Value (Children (makeBindDnRequest cd u pw) ! 0) = VUint64 0 \<and>
   length (Children (makeBindDnRequest cd u pw)) = 2 \<and>
   ClassType (bindDnReq e) = ClassApplication \<and>
   Tag (bindDnReq e) = ApplicationBindRequest \<and>
   map Value (Children (bindDnReq e)) = [VUint64 3, VString (BindDn e), VString (BindPass e)] \<and>
   map Tag (Children (bindDnReq e)) = [TagInteger, TagOctetString, 0] \<and>
   map ClassType (Children (bindDnReq e)) = [ClassUniversal, ClassUniversal, ClassContext] \<and>
   new_events s (snd (sendBindDnRequest e s)) =
     [countBinds, BindChain Synthetic (bindDnReq e) (fwd_code e s),
      Sent (encodeBindResponse 0 (fwd_code e s)) (fwd_sent e s)]"
  by (simp add: makeBindDnRequest_children bindDnReq_def sendBindDnRequest_eq new_events_def
      fwd_events_def)

subsection \<open>The bound identity\<close>

lemma handleBind_boundDN:
  "handleBind e p mid req s = (fl, s') \<Longrightarrow> boundDN s' \<noteq> boundDN s \<Longrightarrow>
     \<exists>og q. BindChain og q LDAPResultSuccess \<in> set (new_events s s')"
  by (auto simp add: handleBind_def Let_def emit_def forward_eq new_events_def fwd_events_def
      split: option.splits if_splits) blast+

lemma handleSearch_boundDN:
  "handleSearch e mid req cs s = (fl, s') \<Longrightarrow> boundDN s' \<noteq> boundDN s \<Longrightarrow>
     \<exists>og q. BindChain og q LDAPResultSuccess \<in> set (new_events s s')"
  by (auto simp add: handleSearch_def Let_def emit_def forward_eq new_events_def fwd_events_def
      split: search_error.splits if_splits)

lemma dispatch_boundDN:
  "dispatch e p mid req cs s = (fl, s') \<Longrightarrow> boundDN s' \<noteq> boundDN s \<Longrightarrow>
     \<exists>og q. BindChain og q LDAPResultSuccess \<in> set (new_events s s')"
  by (auto simp add: dispatch_def Let_def handleDefault_def emit_def
      dest: handleBind_boundDN handleSearch_boundDN respond_count split: if_splits)

lemma dispatch_other_boundDN:
  "Tag req \<noteq> ApplicationBindRequest \<Longrightarrow> Tag req \<noteq> ApplicationSearchRequest \<Longrightarrow>
     boundDN (snd (dispatch e p mid req cs s)) = boundDN s"
  by (auto simp add: dispatch_def Let_def handleDefault_def emit_def respond_def)

lemma handleBind_rejected_boundDN:
  "HandleBindRequest e (trace s @ [countBinds]) req \<noteq> LDAPResultSuccess \<Longrightarrow>
   BindChain Synthetic (bindDnReq e) LDAPResultSuccess \<notin>
     set (new_events s (snd (handleBind e p mid req s))) \<Longrightarrow>
   boundDN (snd (handleBind e p mid req s)) = boundDN s"
  by (auto simp add: handleBind_def Let_def emit_def forward_eq new_events_def fwd_events_def
      split: if_splits)

lemma handleSearch_rejected_boundDN:
  "BindChain Synthetic (bindDnReq e) LDAPResultSuccess \<notin>
     set (new_events s (snd (handleSearch e mid req cs s))) \<Longrightarrow>
   boundDN (snd (handleSearch e mid req cs s)) = boundDN s"
  by (auto simp add: handleSearch_def Let_def emit_def forward_eq new_events_def fwd_events_def
      split: search_error.splits if_splits)

lemma loop_body_decoded:
  "well_formed p mid req \<Longrightarrow>
     (\<exists>cs p'. loop_body e p s = dispatch e p' mid req cs s) \<or> loop_body e p s = (Panic, s)"
proof (cases "decode_controls e p")
  case None
  assume "well_formed p mid req"
  with None show ?thesis by (simp add: loop_body_decode_panic)
next
  case (Some x)
  assume wf: "well_formed p mid req"
  obtain cs p' where "x = (cs, p')" by (cases x)
  with Some have "decode_controls e p = Some (cs, p')" by simp
  from loop_body_well_formed [OF wf this] show ?thesis by blast
qed

text \<open>
  Claim C10, as the code has it. A step changes the bound identity only if a bind chain
  call of that step, for a wire request or for the synthetic one, returned success. The
  forwarder leaves the identity alone when its chain call does not return success. A step
  for a wire bind that the chain rejects, and a step for a search, leave it alone unless
  the synthetic bind made in that step is accepted. A step for an operation that is
  neither a bind nor a search always leaves it alone.
\<close>

theorem boundDN_changes_only_on_bind_success:
  "(loop_body e p s = (fl, s') \<and> boundDN s' \<noteq> boundDN s \<longrightarrow>
      (\<exists>og q. BindChain og q LDAPResultSuccess \<in> set (new_events s s'))) \<and>
   (fwd_code e s \<noteq> LDAPResultSuccess \<longrightarrow> boundDN (snd (sendBindDnRequest e s)) = boundDN s) \<and>
   (well_formed p mid req \<and> Tag req = ApplicationBindRequest \<and>
    HandleBindRequest e (trace s @ [countBinds]) req \<noteq> LDAPResultSuccess \<and>
    BindChain Synthetic (bindDnReq e) LDAPResultSuccess \<notin>
      set (new_events s (snd (loop_body e p s))) \<longrightarrow>
      boundDN (snd (loop_body e p s)) = boundDN s) \<and>
   (well_formed p mid req \<and> Tag req = ApplicationSearchRequest \<and>
    BindChain Synthetic (bindDnReq e) LDAPResultSuccess \<notin>
      set (new_events s (snd (loop_body e p s))) \<longrightarrow>
      boundDN (snd (loop_body e p s)) = boundDN s) \<and>
   (well_formed p mid req \<and> Tag req \<noteq> ApplicationBindRequest \<and>
    Tag req \<noteq> ApplicationSearchRequest \<longrightarrow> boundDN (snd (loop_body e p s)) = boundDN s)"
proof (intro conjI impI)
  assume a: "loop_body e p s = (fl, s') \<and> boundDN s' \<noteq> boundDN s"
  then have "s' \<noteq> s" by auto
  with loop_body_cases [of p e s] a obtain mid cs p'
    where d: "dispatch e p' mid (Children p ! 1) cs s = (fl, s')" by auto
  from dispatch_boundDN [OF d] a
  show "\<exists>og q. BindChain og q LDAPResultSuccess \<in> set (new_events s s')" by simp
next
  assume "fwd_code e s \<noteq> LDAPResultSuccess"
  then show "boundDN (snd (sendBindDnRequest e s)) = boundDN s"
    by (simp add: sendBindDnRequest_eq)
next
  assume a: "well_formed p mid req \<and> Tag req = ApplicationBindRequest \<and>
    HandleBindRequest e (trace s @ [countBinds]) req \<noteq> LDAPResultSuccess \<and>
    BindChain Synthetic (bindDnReq e) LDAPResultSuccess \<notin>
      set (new_events s (snd (loop_body e p s)))"
  with loop_body_decoded [of p mid req e s]
  consider p' where "loop_body e p s = handleBind e p' mid req s"
    | "loop_body e p s = (Panic, s)"
    by (auto simp add: dispatch_def)
  then show "boundDN (snd (loop_body e p s)) = boundDN s"
  proof cases
    case 1
    with a show ?thesis by (simp add: handleBind_rejected_boundDN)
  next
    case 2
    then show ?thesis by simp
  qed
next
  assume a: "well_formed p mid req \<and> Tag req = ApplicationSearchRequest \<and>
    BindChain Synthetic (bindDnReq e) LDAPResultSuccess \<notin>
      set (new_events s (snd (loop_body e p s)))"
  with loop_body_decoded [of p mid req e s]
  consider cs where "loop_body e p s = handleSearch e mid req cs s"
    | "loop_body e p s = (Panic, s)"
    by (auto simp add: dispatch_def tags_distinct)
  then show "boundDN (snd (loop_body e p s)) = boundDN s"
  proof cases
    case 1
    with a show ?thesis by (simp add: handleSearch_rejected_boundDN)
  next
    case 2
    then show ?thesis by simp
  qed
next
  assume a: "well_formed p mid req \<and> Tag req \<noteq> ApplicationBindRequest \<and>
    Tag req \<noteq> ApplicationSearchRequest"
  with loop_body_decoded [of p mid req e s]
  show "boundDN (snd (loop_body e p s)) = boundDN s"
    by (auto simp add: dispatch_other_boundDN)
qed

text \<open>
  A bind as \<open>cn=a\<close> that the chain accepts, a forwarding attempt that the chain rejects,
  an anonymous bind that the chain rejects together with the synthetic one, a search whose
  synthetic bind the chain rejects, and an add request.
\<close>

theorem boundDN_changes_only_on_bind_success_witness:
  "boundDN (snd (loop_body (ex_env LDAPResultSuccess) (ex_envelope 1 (ex_bind_request ''cn=a'' ''pw'')) initial))
     \<noteq> boundDN initial \<and>
   (\<exists>og q. BindChain og q LDAPResultSuccess \<in>
      set (new_events initial
        (snd (loop_body (ex_env LDAPResultSuccess) (ex_envelope 1 (ex_bind_request ''cn=a'' ''pw'')) initial)))) \<and>
   fwd_code (ex_env 49) initial \<noteq> LDAPResultSuccess \<and>
   boundDN (snd (sendBindDnRequest (ex_env 49) initial)) = boundDN initial \<and>
   well_formed (ex_envelope 1 (ex_bind_request [] [])) 1 (ex_bind_request [] []) \<and>
   Tag (ex_bind_request [] []) = ApplicationBindRequest \<and>
   HandleBindRequest (ex_env 49) (trace initial @ [countBinds]) (ex_bind_request [] []) \<noteq> LDAPResultSuccess \<and>
   BindChain Synthetic (bindDnReq (ex_env 49)) LDAPResultSuccess \<notin>
     set (new_events initial (snd (loop_body (ex_env 49) (ex_envelope 1 (ex_bind_request [] [])) initial))) \<and>
   boundDN (snd (loop_body (ex_env 49) (ex_envelope 1 (ex_bind_request [] [])) initial)) = boundDN initial \<and>
   well_formed (ex_envelope 2 ex_search_request) 2 ex_search_request \<and>
   Tag ex_search_request = ApplicationSearchRequest \<and>
   BindChain Synthetic (bindDnReq (ex_env 49)) LDAPResultSuccess \<notin>
     set (new_events initial (snd (loop_body (ex_env 49) (ex_envelope 2 ex_search_request) initial))) \<and>
   boundDN (snd (loop_body (ex_env 49) (ex_envelope 2 ex_search_request) initial)) = boundDN initial \<and>
   well_formed (ex_envelope 6 ex_add_request) 6 ex_add_request \<and>
   Tag ex_add_request \<noteq> ApplicationBindRequest \<and> Tag ex_add_request \<noteq> ApplicationSearchRequest \<and>
   boundDN (snd (loop_body (ex_env 49) (ex_envelope 6 ex_add_request) initial)) = boundDN initial"
proof -
  have 1: "boundDN (snd (loop_body (ex_env LDAPResultSuccess) (ex_envelope 1 (ex_bind_request ''cn=a'' ''pw'')) initial))
     \<noteq> boundDN initial" by code_simp
  have 2: "fwd_code (ex_env 49) initial \<noteq> LDAPResultSuccess" by code_simp
  have 3: "well_formed (ex_envelope 6 ex_add_request) 6 ex_add_request" by code_simp
  have 4: "Tag ex_add_request \<noteq> ApplicationBindRequest" "Tag ex_add_request \<noteq> ApplicationSearchRequest"
    by code_simp+
  have 5: "well_formed (ex_envelope 1 (ex_bind_request [] [])) 1 (ex_bind_request [] [])"
    "Tag (ex_bind_request [] []) = ApplicationBindRequest"
    by code_simp+
  have 6: "HandleBindRequest (ex_env 49) (trace initial @ [countBinds]) (ex_bind_request [] []) \<noteq> LDAPResultSuccess"
    by code_simp
  have 7: "BindChain Synthetic (bindDnReq (ex_env 49)) LDAPResultSuccess \<notin>
     set (new_events initial (snd (loop_body (ex_env 49) (ex_envelope 1 (ex_bind_request [] [])) initial)))"
    by code_simp
  have 8: "well_formed (ex_envelope 2 ex_search_request) 2 ex_search_request"
    "Tag ex_search_request = ApplicationSearchRequest"
    by code_simp+
  have 9: "BindChain Synthetic (bindDnReq (ex_env 49)) LDAPResultSuccess \<notin>
     set (new_events initial (snd (loop_body (ex_env 49) (ex_envelope 2 ex_search_request) initial)))"
    by code_simp
  from 1 2 3 4 5 6 7 8 9 show ?thesis
    using boundDN_changes_only_on_bind_success [where e = "ex_env LDAPResultSuccess"
        and p = "ex_envelope 1 (ex_bind_request ''cn=a'' ''pw'')" and s = initial
        and fl = "fst (loop_body (ex_env LDAPResultSuccess) (ex_envelope 1 (ex_bind_request ''cn=a'' ''pw'')) initial)"
        and s' = "snd (loop_body (ex_env LDAPResultSuccess) (ex_envelope 1 (ex_bind_request ''cn=a'' ''pw'')) initial)"]
      boundDN_changes_only_on_bind_success [where e = "ex_env 49"
        and p = "ex_envelope 6 ex_add_request" and mid = 6 and req = ex_add_request and s = initial]
      boundDN_changes_only_on_bind_success [where e = "ex_env 49"
        and p = "ex_envelope 1 (ex_bind_request [] [])" and mid = 1 and req = "ex_bind_request [] []"
        and s = initial]
      boundDN_changes_only_on_bind_success [where e = "ex_env 49"
        and p = "ex_envelope 2 ex_search_request" and mid = 2 and req = ex_search_request
        and s = initial]
    by simp
qed

text \<open>
  Claim C10 as stated fails. A search is not a bind, and as the first request of a
  connection it changes the bound identity from anonymous to the service identity. An
  anonymous bind that the chain rejects with code 49 changes it too when the chain accepts
  the synthetic bind that follows.
\<close>

theorem search_changes_boundDN_counterexample:
  "Tag ex_search_request \<noteq> ApplicationBindRequest \<and>
   boundDN initial = [] \<and>
   boundDN (snd (loop_body (ex_env LDAPResultSuccess) (ex_envelope 1 ex_search_request) initial)) =
     ''cn=svc'' \<and>
   HandleBindRequest ex_env_service_only (trace initial @ [countBinds]) (ex_bind_request [] []) \<noteq>
     LDAPResultSuccess \<and>
   Tag (ex_bind_request [] []) = ApplicationBindRequest \<and>
   boundDN (snd (loop_body ex_env_service_only (ex_envelope 1 (ex_bind_request [] [])) initial)) =
     ''cn=svc''"
  by code_simp

end
